theory Spec2Isabelle
  imports Complex_Main
begin

section \<open>The attention tracker (src/app/ui/studio-panel/studio-panel.tsx)\<close>

text \<open>
  The component \<open>AttentionLevelTracker\<close> keeps its React state in \<open>useState\<close> cells and one
  \<open>useRef\<close>. The model passes that state explicitly. A JavaScript number is modelled as an
  exact rational (a finite double is one; \<open>NaN\<close> and the infinities are left out), the
  payload field \<open>focusScore\<close> as \<open>rat option\<close> with \<open>None\<close> for \<open>undefined\<close>, and
  \<open>Date.now()\<close> as an \<open>int\<close> handed to every handler.
\<close>

text \<open>\<open>Math.round\<close>: the nearest integer, a tie going towards plus infinity.\<close>

definition Math_round :: "rat \<Rightarrow> int" where
  "Math_round x = \<lfloor>x + 1 / 2\<rfloor>"

text \<open>The object handed to \<open>onAttentionChange\<close>; the dashboard stores it as \<open>attentionData\<close>.\<close>

record attention_data =
  attentionLevel :: int
  shouldSwitchContent :: bool

text \<open>
  What a handler does besides updating state: a call of the \<open>onAttentionChange\<close> callback,
  a console line, or the POST to \<open>/process-pdf\<close> with the selected file.
\<close>

type_synonym file_ref = string

datatype effect =
    Notify attention_data
  | ConsoleLog
  | ConsoleError
  | FetchProcessPdf file_ref

text \<open>
  The state of the tracker. \<open>trackerAttentionLevel\<close> is the state cell the source calls
  \<open>attentionLevel\<close> (the name is taken by the field of \<open>attention_data\<close>);
  \<open>lastSuggestionTimeRef\<close> is \<open>None\<close> while the ref holds \<open>null\<close>.
\<close>

record tracker =
  trackerAttentionLevel :: int
  focusScoreHistory :: "int list"
  averageFocusScore :: int
  showContentSuggestionModal :: bool
  lastSuggestionTimeRef :: "int option"

definition initial_tracker :: tracker where
  "initial_tracker =
     \<lparr>trackerAttentionLevel = 75, focusScoreHistory = [], averageFocusScore = 75,
      showContentSuggestionModal = False, lastSuggestionTimeRef = None\<rparr>"

definition SUGGESTION_COOLDOWN :: int where
  "SUGGESTION_COOLDOWN = 60000"

definition FOCUS_HISTORY_SIZE :: nat where
  "FOCUS_HISTORY_SIZE = 5"

definition LOW_FOCUS_THRESHOLD :: int where
  "LOW_FOCUS_THRESHOLD = 40"

text \<open>\<open>xs.slice(-n)\<close> for \<open>n > 0\<close>: the last \<open>n\<close> elements, or all of them when there are fewer.\<close>

definition slice_last :: "nat \<Rightarrow> 'a list \<Rightarrow> 'a list" where
  "slice_last n xs = drop (length xs - n) xs"

text \<open>The updater passed to \<open>setFocusScoreHistory\<close> (lines 149-156).\<close>

definition pushHistory :: "int list \<Rightarrow> int \<Rightarrow> int list" where
  "pushHistory prevHistory roundedScore =
     (let newHistory = prevHistory @ [roundedScore]
      in if length newHistory > FOCUS_HISTORY_SIZE
         then slice_last FOCUS_HISTORY_SIZE newHistory
         else newHistory)"

text \<open>
  The socket handler of \<open>focusScoreUpdate\<close> (lines 139-161), for a payload object whose
  \<open>focusScore\<close> is \<open>undefined\<close> or a finite number: only \<open>undefined\<close> is refused, with a
  console error; any number is rounded and pushed. An event without a payload object, and
  the scores \<open>null\<close> and \<open>NaN\<close>, are outside this model.
\<close>

definition focusScoreUpdate :: "rat option \<Rightarrow> tracker \<Rightarrow> tracker \<times> effect list" where
  "focusScoreUpdate focusScore t =
     (case focusScore of
        Some x \<Rightarrow>
          (let roundedScore = Math_round x
           in (t\<lparr>trackerAttentionLevel := roundedScore,
                  focusScoreHistory := pushHistory (focusScoreHistory t) roundedScore\<rparr>, []))
      | None \<Rightarrow> (t, [ConsoleError]))"

text \<open>
  \<open>isOnCooldown\<close> (lines 188-190): \<open>ref && now - ref < SUGGESTION_COOLDOWN\<close>. The left
  operand is falsy for \<open>null\<close> and for the number 0.
\<close>

definition isOnCooldown :: "int \<Rightarrow> int option \<Rightarrow> bool" where
  "isOnCooldown currentTime lastSuggestionTime =
     (case lastSuggestionTime of
        None \<Rightarrow> False
      | Some l \<Rightarrow> l \<noteq> 0 \<and> currentTime - l < SUGGESTION_COOLDOWN)"

text \<open>
  \<open>Math.round(sum / focusScoreHistory.length)\<close> with \<open>sum\<close> the \<open>reduce\<close> of line 182. The sum
  and the quotient are exact here; the doubles of the source agree with them as long as the
  sum stays below \<open>2^53\<close> in magnitude, which scores of ordinary size never reach.
\<close>

definition average :: "int list \<Rightarrow> int" where
  "average h =
     (let sum = foldl (\<lambda>acc score. acc + score) 0 h
      in Math_round (rat_of_int sum / rat_of_nat (length h)))"

text \<open>
  The body of the effect of lines 178-209, run at time \<open>currentTime\<close>. The tracker is
  mounted by the dashboard with the callback present, so \<open>if (onAttentionChange)\<close> is taken.
\<close>

definition history_effect :: "int \<Rightarrow> tracker \<Rightarrow> tracker \<times> effect list" where
  "history_effect currentTime t =
     (if length (focusScoreHistory t) = 0 then (t, [])
      else
        (let avg = average (focusScoreHistory t);
             t1 = t\<lparr>averageFocusScore := avg\<rparr>;
             t2 = (if length (focusScoreHistory t) \<ge> FOCUS_HISTORY_SIZE
                      \<and> avg < LOW_FOCUS_THRESHOLD
                      \<and> \<not> isOnCooldown currentTime (lastSuggestionTimeRef t)
                      \<and> \<not> showContentSuggestionModal t
                   then t1\<lparr>showContentSuggestionModal := True\<rparr>
                   else t1)
         in (t2, [Notify \<lparr>attentionLevel = avg, shouldSwitchContent = False\<rparr>])))"

text \<open>The guard of lines 193-198: this run of the effect opens the dialog.\<close>

definition opens :: "int \<Rightarrow> tracker \<Rightarrow> bool" where
  "opens currentTime t \<longleftrightarrow>
     FOCUS_HISTORY_SIZE \<le> length (focusScoreHistory t)
     \<and> average (focusScoreHistory t) < LOW_FOCUS_THRESHOLD
     \<and> \<not> isOnCooldown currentTime (lastSuggestionTimeRef t)
     \<and> \<not> showContentSuggestionModal t"

lemma history_effect_keeps_open:
  "showContentSuggestionModal t \<Longrightarrow> showContentSuggestionModal (fst (history_effect now t))"
  by (simp add: history_effect_def Let_def)

text \<open>
  React runs the effect again after every commit in which one of its dependencies
  \<open>[focusScoreHistory, showContentSuggestionModal, onAttentionChange]\<close> changed. The effect
  itself can change \<open>showContentSuggestionModal\<close>, so it is run until that flag is stable.
\<close>

function run_effect :: "int \<Rightarrow> tracker \<Rightarrow> tracker \<times> effect list" where
  "run_effect now t =
     (case history_effect now t of
        (t', out) \<Rightarrow>
          if showContentSuggestionModal t' \<noteq> showContentSuggestionModal t
          then (case run_effect now t' of (t'', out') \<Rightarrow> (t'', out @ out'))
          else (t', out))"
  by pat_completeness auto
termination
  apply (relation "measure (\<lambda>(now, t). if showContentSuggestionModal t then 0 else 1)")
   apply simp
  subgoal for now t t' out
    using history_effect_keeps_open [of t now]
    by (cases "history_effect now t") auto
  done

text \<open>The button handlers (lines 212-232) and the dialog's \<open>onOpenChange\<close> (line 286).\<close>

definition handleContentChange :: "int \<Rightarrow> tracker \<Rightarrow> tracker \<times> effect list" where
  "handleContentChange now t =
     (t\<lparr>lastSuggestionTimeRef := Some now, showContentSuggestionModal := False\<rparr>,
      [Notify \<lparr>attentionLevel = averageFocusScore t, shouldSwitchContent = True\<rparr>])"

definition handleDismissSuggestion :: "int \<Rightarrow> tracker \<Rightarrow> tracker" where
  "handleDismissSuggestion now t =
     t\<lparr>lastSuggestionTimeRef := Some now, showContentSuggestionModal := False\<rparr>"

definition onOpenChange :: "bool \<Rightarrow> tracker \<Rightarrow> tracker" where
  "onOpenChange opened t = t\<lparr>showContentSuggestionModal := opened\<rparr>"

text \<open>
  What reaches the tracker: a socket event with its \<open>focusScore\<close>, a click on
  "Switch Content" or on "Dismiss", and the dialog asking to change its open state
  (Escape or a click outside ask for \<open>false\<close>).
\<close>

datatype event =
    FocusScoreUpdate "rat option"
  | SwitchContentClicked
  | DismissClicked
  | DialogOpenChange bool

text \<open>
  The commit after a handler: the effect runs when the handler replaced the history array
  (the updater always builds a new array) or changed \<open>showContentSuggestionModal\<close>.
\<close>

definition commit :: "int \<Rightarrow> bool \<Rightarrow> tracker \<Rightarrow> tracker \<times> effect list \<Rightarrow> tracker \<times> effect list" where
  "commit now historyReplaced t r =
     (case r of
        (t1, out) \<Rightarrow>
          if historyReplaced \<or> showContentSuggestionModal t1 \<noteq> showContentSuggestionModal t
          then (case run_effect now t1 of (t2, out') \<Rightarrow> (t2, out @ out'))
          else (t1, out))"

text \<open>
  One event, handled to completion. The dialog and its two buttons are rendered only while
  \<open>showContentSuggestionModal\<close> holds, so their events do nothing otherwise.
\<close>

definition tracker_step :: "int \<Rightarrow> event \<Rightarrow> tracker \<Rightarrow> tracker \<times> effect list" where
  "tracker_step now e t =
     (case e of
        FocusScoreUpdate score \<Rightarrow> commit now (score \<noteq> None) t (focusScoreUpdate score t)
      | SwitchContentClicked \<Rightarrow>
          if showContentSuggestionModal t then commit now False t (handleContentChange now t)
          else (t, [])
      | DismissClicked \<Rightarrow>
          if showContentSuggestionModal t then commit now False t (handleDismissSuggestion now t, [])
          else (t, [])
      | DialogOpenChange opened \<Rightarrow>
          if showContentSuggestionModal t then commit now False t (onOpenChange opened t, [])
          else (t, []))"

fun tracker_run :: "(int \<times> event) list \<Rightarrow> tracker \<Rightarrow> tracker" where
  "tracker_run [] t = t"
| "tracker_run ((now, e) # es) t = tracker_run es (fst (tracker_step now e t))"

text \<open>The calls of \<open>onAttentionChange\<close> among the effects of a step.\<close>

fun notifications :: "effect list \<Rightarrow> attention_data list" where
  "notifications [] = []"
| "notifications (Notify n # es) = n # notifications es"
| "notifications (_ # es) = notifications es"

section \<open>The dashboard (src/app/dashboard/page.tsx)\<close>

text \<open>
  The payload is \<open>any\<close> in the source. The model keeps the values that matter to
  \<open>a || b\<close>: the falsy \<open>undefined\<close>, \<open>null\<close> and empty string, and truthy strings and
  objects (an object is named by a number).
\<close>

datatype js_value = Undefined | Null | JString string | JObject nat

fun truthy :: "js_value \<Rightarrow> bool" where
  "truthy Undefined = False"
| "truthy Null = False"
| "truthy (JString s) = (s \<noteq> [])"
| "truthy (JObject _) = True"

definition js_or :: "js_value \<Rightarrow> js_value \<Rightarrow> js_value" where
  "js_or a b = (if truthy a then a else b)"

record content_data =
  focusScore :: int
  type :: string
  data :: js_value
  timestamp :: "int option"

text \<open>
  The JSON the backend answers with. A part such as \<open>result.text\<close> is \<open>Absent\<close> when the
  key is missing (reading \<open>.data\<close> of it throws a TypeError), else \<open>Part d\<close> with \<open>d\<close> the
  value of its \<open>data\<close> field.
\<close>

datatype part = Absent | Part js_value

record process_result =
  result_text :: part
  result_flipcard :: part
  result_tiktok :: part
  result_quiz :: part
  result_mini :: part
  result_data :: js_value

datatype fetch_error = FetchRejected | NotOk | JsonRejected | TypeError

text \<open>
  What \<open>fetch\<close> does: it rejects, or it resolves to a response with its \<open>ok\<close> flag and a
  body; the body is \<open>None\<close> when \<open>response.json()\<close> rejects.
\<close>

datatype fetch_response = NetworkFailure | Response bool "process_result option"

definition part_data :: "part \<Rightarrow> js_value \<Rightarrow> fetch_error + js_value" where
  "part_data p fallback = (case p of Absent \<Rightarrow> Inl TypeError | Part d \<Rightarrow> Inr (js_or d fallback))"

definition make_content :: "int \<Rightarrow> string \<Rightarrow> fetch_error + js_value \<Rightarrow> fetch_error + content_data" where
  "make_content score ty r =
     (case r of
        Inl e \<Rightarrow> Inl e
      | Inr d \<Rightarrow> Inr \<lparr>focusScore = score, type = ty, data = d, timestamp = None\<rparr>)"

text \<open>Lines 58-80 of \<open>fetchContent\<close>: the type and the data chosen by the focus score.\<close>

definition assign_content :: "int \<Rightarrow> process_result \<Rightarrow> fetch_error + content_data" where
  "assign_content score result =
     (if score > 80 then
        make_content score ''text'' (part_data (result_text result) (result_data result))
      else if score > 60 then
        make_content score ''flipcard'' (part_data (result_flipcard result) (result_data result))
      else if score > 40 then
        make_content score ''tiktok'' (part_data (result_tiktok result) (result_data result))
      else if score > 20 then
        make_content score ''quiz'' (part_data (result_quiz result) (result_data result))
      else
        make_content score ''react'' (part_data (result_mini result) (result_data result)))"

text \<open>The \<open>try\<close> block of \<open>fetchContent\<close> (lines 36-83) up to \<open>setCurrentData\<close>.\<close>

definition fetch_try :: "int \<Rightarrow> fetch_response \<Rightarrow> fetch_error + content_data" where
  "fetch_try score resp =
     (case resp of
        NetworkFailure \<Rightarrow> Inl FetchRejected
      | Response ok body \<Rightarrow>
          if \<not> ok then Inl NotOk
          else (case body of
                  None \<Rightarrow> Inl JsonRejected
                | Some result \<Rightarrow> assign_content score result))"

text \<open>
  The state of \<open>Dashboard\<close> that the content logic reads or writes (the upload modal and
  the list of uploaded files are left out).
\<close>

record dashboard =
  selectedFile :: "file_ref option"
  currentData :: "content_data option"
  isLoading :: bool
  attentionData :: attention_data

definition initial_dashboard :: dashboard where
  "initial_dashboard =
     \<lparr>selectedFile = None, currentData = None, isLoading = False,
      attentionData = \<lparr>attentionLevel = 75, shouldSwitchContent = False\<rparr>\<rparr>"

text \<open>
  \<open>fetchContent\<close> (lines 28-89), with the answer of the backend as a parameter. The request
  and its answer are taken as one step. A TypeError is thrown after the first console line
  of the \<open>try\<close> block, the other errors before it; \<open>isLoading\<close> ends \<open>false\<close> either way.
\<close>

definition fetchContent :: "fetch_response \<Rightarrow> dashboard \<Rightarrow> dashboard \<times> effect list" where
  "fetchContent resp d =
     (case selectedFile d of
        None \<Rightarrow> (d, [ConsoleLog])
      | Some f \<Rightarrow>
          (case fetch_try (attentionLevel (attentionData d)) resp of
             Inl e \<Rightarrow>
               (d\<lparr>isLoading := False\<rparr>,
                FetchProcessPdf f # (if e = TypeError then [ConsoleLog, ConsoleError] else [ConsoleError]))
           | Inr contentData \<Rightarrow>
               (d\<lparr>currentData := Some contentData, isLoading := False\<rparr>,
                [FetchProcessPdf f, ConsoleLog, ConsoleLog])))"

text \<open>The chain of lines 110-121 of \<open>updateContentType\<close>.\<close>

definition newType :: "int \<Rightarrow> string" where
  "newType level =
     (if level > 80 then ''text''
      else if level > 60 then ''flipcard''
      else if level > 40 then ''tiktok''
      else if level > 20 then ''quiz''
      else ''react'')"

text \<open>\<open>updateContentType\<close> (lines 105-142); \<open>now\<close> is the \<open>Date.now()\<close> of line 136.\<close>

definition updateContentType :: "int \<Rightarrow> int \<Rightarrow> dashboard \<Rightarrow> dashboard \<times> effect list" where
  "updateContentType now level d =
     (case currentData d of
        None \<Rightarrow> (d, [])
      | Some prevData \<Rightarrow>
          if newType level \<noteq> type prevData
          then (d\<lparr>currentData :=
                   Some (prevData\<lparr>type := newType level, focusScore := level,
                                   timestamp := Some now\<rparr>)\<rparr>,
                [ConsoleLog])
          else (d, []))"

text \<open>\<open>handleAttentionChange\<close> (lines 92-102).\<close>

definition handleAttentionChange :: "int \<Rightarrow> attention_data \<Rightarrow> dashboard \<Rightarrow> dashboard \<times> effect list" where
  "handleAttentionChange now n d =
     (let d1 = d\<lparr>attentionData := n\<rparr>
      in if currentData d \<noteq> None \<and> shouldSwitchContent n
         then updateContentType now (attentionLevel n) d1
         else (d1, []))"

text \<open>The effect of lines 162-166, run after a commit that changed one of its dependencies.\<close>

definition attention_effect :: "int \<Rightarrow> dashboard \<Rightarrow> dashboard \<times> effect list" where
  "attention_effect now d =
     (if shouldSwitchContent (attentionData d) \<and> currentData d \<noteq> None
      then updateContentType now (attentionLevel (attentionData d)) d
      else (d, []))"

text \<open>One call of the callback by the tracker: the handler, then the effect.\<close>

definition dashboard_notify :: "int \<Rightarrow> attention_data \<Rightarrow> dashboard \<Rightarrow> dashboard \<times> effect list" where
  "dashboard_notify now n d =
     (case handleAttentionChange now n d of
        (d1, out1) \<Rightarrow> (case attention_effect now d1 of (d2, out2) \<Rightarrow> (d2, out1 @ out2)))"

text \<open>
  \<open>handleFileView\<close> (lines 169-171) selects a file, one that is not the selected one
  already, and the effect of lines 155-159 then calls \<open>fetchContent\<close>. When that stored a
  new \<open>currentData\<close>, a dependency of the effect of lines 162-166 changed and it runs; after
  a failed fetch nothing it depends on changed.
\<close>

definition handleFileView :: "int \<Rightarrow> file_ref \<Rightarrow> fetch_response \<Rightarrow> dashboard \<Rightarrow> dashboard \<times> effect list" where
  "handleFileView now f resp d =
     (case fetchContent resp (d\<lparr>selectedFile := Some f\<rparr>) of
        (d1, out1) \<Rightarrow>
          if currentData d1 \<noteq> currentData d
          then (case attention_effect now d1 of (d2, out2) \<Rightarrow> (d2, out1 @ out2))
          else (d1, out1))"

section \<open>Tracker and dashboard together\<close>

record system =
  tracker_state :: tracker
  dashboard_state :: dashboard

definition initial_system :: system where
  "initial_system = \<lparr>tracker_state = initial_tracker, dashboard_state = initial_dashboard\<rparr>"

text \<open>The effects of a tracker step, in order; each notification is a call of the callback.\<close>

fun deliver :: "int \<Rightarrow> effect list \<Rightarrow> dashboard \<Rightarrow> dashboard \<times> effect list" where
  "deliver now [] d = (d, [])"
| "deliver now (Notify n # outs) d =
     (case dashboard_notify now n d of
        (d1, out1) \<Rightarrow> (case deliver now outs d1 of (d2, out2) \<Rightarrow> (d2, out1 @ out2)))"
| "deliver now (_ # outs) d = deliver now outs d"

definition system_step :: "int \<Rightarrow> event \<Rightarrow> system \<Rightarrow> system \<times> effect list" where
  "system_step now e s =
     (case tracker_step now e (tracker_state s) of
        (t', outs) \<Rightarrow>
          (case deliver now outs (dashboard_state s) of
             (d', outs') \<Rightarrow> (\<lparr>tracker_state = t', dashboard_state = d'\<rparr>, outs @ outs')))"

fun system_run :: "(int \<times> event) list \<Rightarrow> system \<Rightarrow> system" where
  "system_run [] s = s"
| "system_run ((now, e) # es) s = system_run es (fst (system_step now e s))"

section \<open>Facts about the tracker's effect\<close>

declare run_effect.simps [simp del]

lemma foldl_add_sum_list: "foldl (\<lambda>acc score. acc + score) a h = a + sum_list (h :: int list)"
  by (induction h arbitrary: a) simp_all

lemma average_round:
  "average h = round (rat_of_int (sum_list h) / rat_of_nat (length h))"
  by (simp add: average_def Math_round_def round_def foldl_add_sum_list)

lemma history_effect_cases:
  "history_effect now t =
     (if focusScoreHistory t = [] then (t, [])
      else if opens now t
      then (t\<lparr>averageFocusScore := average (focusScoreHistory t), showContentSuggestionModal := True\<rparr>,
            [Notify \<lparr>attentionLevel = average (focusScoreHistory t), shouldSwitchContent = False\<rparr>])
      else (t\<lparr>averageFocusScore := average (focusScoreHistory t)\<rparr>,
            [Notify \<lparr>attentionLevel = average (focusScoreHistory t), shouldSwitchContent = False\<rparr>]))"
  by (simp add: history_effect_def opens_def Let_def)

text \<open>
  The effect runs once, and a second time exactly when the first run opened the dialog;
  the second run changes nothing and calls the callback again.
\<close>

lemma run_effect_cases:
  "run_effect now t =
     (if focusScoreHistory t = [] then (t, [])
      else if opens now t
      then (t\<lparr>averageFocusScore := average (focusScoreHistory t), showContentSuggestionModal := True\<rparr>,
            [Notify \<lparr>attentionLevel = average (focusScoreHistory t), shouldSwitchContent = False\<rparr>,
             Notify \<lparr>attentionLevel = average (focusScoreHistory t), shouldSwitchContent = False\<rparr>])
      else (t\<lparr>averageFocusScore := average (focusScoreHistory t)\<rparr>,
            [Notify \<lparr>attentionLevel = average (focusScoreHistory t), shouldSwitchContent = False\<rparr>]))"
proof (cases "focusScoreHistory t = []")
  case True
  then show ?thesis
    by (simp add: run_effect.simps [of now t] history_effect_cases)
next
  case ne: False
  show ?thesis
  proof (cases "opens now t")
    case True
    let ?t' = "t\<lparr>averageFocusScore := average (focusScoreHistory t), showContentSuggestionModal := True\<rparr>"
    have closed: "\<not> showContentSuggestionModal t"
      using True by (simp add: opens_def)
    have no: "\<not> opens now ?t'"
      by (simp add: opens_def)
    from ne True closed no show ?thesis
      by (simp add: run_effect.simps [of now t] run_effect.simps [of now ?t'] history_effect_cases)
  next
    case False
    with ne show ?thesis
      by (simp add: run_effect.simps [of now t] history_effect_cases)
  qed
qed

section \<open>The format chosen for a focus score\<close>

text \<open>
  Claim C2. The chain of comparisons in \<open>updateContentType\<close> maps a score above 80 to
  \<open>text\<close>, 61 to 80 to \<open>flipcard\<close>, 41 to 60 to \<open>tiktok\<close>, 21 to 40 to \<open>quiz\<close> and anything
  up to 20 to \<open>react\<close>, so 80, 60, 40 and 20 fall into the lower band, and it always answers
  with one of the five names. The chain in \<open>fetchContent\<close> has the same bands: in each band
  it reads the part of the response that belongs to the band; when the part is there it
  builds the content object with the score, the type of the band and the data of the part
  (or \<open>result.data\<close> when that is falsy), and when the part is missing it throws.
\<close>

theorem classification_bands:
  "(80 < n \<longrightarrow> newType n = ''text'')
   \<and> (60 < n \<and> n \<le> 80 \<longrightarrow> newType n = ''flipcard'')
   \<and> (40 < n \<and> n \<le> 60 \<longrightarrow> newType n = ''tiktok'')
   \<and> (20 < n \<and> n \<le> 40 \<longrightarrow> newType n = ''quiz'')
   \<and> (n \<le> 20 \<longrightarrow> newType n = ''react'')
   \<and> newType n \<in> {''text'', ''flipcard'', ''tiktok'', ''quiz'', ''react''}
   \<and> (80 < n \<longrightarrow> assign_content n result =
        (case result_text result of
           Absent \<Rightarrow> Inl TypeError
         | Part d \<Rightarrow> Inr \<lparr>focusScore = n, type = ''text'',
                          data = js_or d (result_data result), timestamp = None\<rparr>))
   \<and> (60 < n \<and> n \<le> 80 \<longrightarrow> assign_content n result =
        (case result_flipcard result of
           Absent \<Rightarrow> Inl TypeError
         | Part d \<Rightarrow> Inr \<lparr>focusScore = n, type = ''flipcard'',
                          data = js_or d (result_data result), timestamp = None\<rparr>))
   \<and> (40 < n \<and> n \<le> 60 \<longrightarrow> assign_content n result =
        (case result_tiktok result of
           Absent \<Rightarrow> Inl TypeError
         | Part d \<Rightarrow> Inr \<lparr>focusScore = n, type = ''tiktok'',
                          data = js_or d (result_data result), timestamp = None\<rparr>))
   \<and> (20 < n \<and> n \<le> 40 \<longrightarrow> assign_content n result =
        (case result_quiz result of
           Absent \<Rightarrow> Inl TypeError
         | Part d \<Rightarrow> Inr \<lparr>focusScore = n, type = ''quiz'',
                          data = js_or d (result_data result), timestamp = None\<rparr>))
   \<and> (n \<le> 20 \<longrightarrow> assign_content n result =
        (case result_mini result of
           Absent \<Rightarrow> Inl TypeError
         | Part d \<Rightarrow> Inr \<lparr>focusScore = n, type = ''react'',
                          data = js_or d (result_data result), timestamp = None\<rparr>))
   \<and> (\<forall>c. assign_content n result = Inr c \<longrightarrow> type c = newType n \<and> focusScore c = n)
   \<and> (result_text result \<noteq> Absent \<and> result_flipcard result \<noteq> Absent
        \<and> result_tiktok result \<noteq> Absent \<and> result_quiz result \<noteq> Absent
        \<and> result_mini result \<noteq> Absent \<longrightarrow>
        (\<exists>d. assign_content n result =
           Inr \<lparr>focusScore = n, type = newType n, data = d, timestamp = None\<rparr>))"
proof -
  have n1: "80 < n \<longrightarrow> newType n = ''text''"
    and n2: "60 < n \<and> n \<le> 80 \<longrightarrow> newType n = ''flipcard''"
    and n3: "40 < n \<and> n \<le> 60 \<longrightarrow> newType n = ''tiktok''"
    and n4: "20 < n \<and> n \<le> 40 \<longrightarrow> newType n = ''quiz''"
    and n5: "n \<le> 20 \<longrightarrow> newType n = ''react''"
    and n6: "newType n \<in> {''text'', ''flipcard'', ''tiktok'', ''quiz'', ''react''}"
    by (simp_all add: newType_def)
  have built: "make_content n ty (part_data p fb) =
      (case p of
         Absent \<Rightarrow> Inl TypeError
       | Part d \<Rightarrow> Inr \<lparr>focusScore = n, type = ty, data = js_or d fb, timestamp = None\<rparr>)"
    for ty p fb
    by (cases p) (simp_all add: make_content_def part_data_def)
  have b1: "80 < n \<longrightarrow> assign_content n result =
        (case result_text result of
           Absent \<Rightarrow> Inl TypeError
         | Part d \<Rightarrow> Inr \<lparr>focusScore = n, type = ''text'',
                          data = js_or d (result_data result), timestamp = None\<rparr>)"
    by (simp add: assign_content_def built)
  have b2: "60 < n \<and> n \<le> 80 \<longrightarrow> assign_content n result =
        (case result_flipcard result of
           Absent \<Rightarrow> Inl TypeError
         | Part d \<Rightarrow> Inr \<lparr>focusScore = n, type = ''flipcard'',
                          data = js_or d (result_data result), timestamp = None\<rparr>)"
    by (simp add: assign_content_def built)
  have b3: "40 < n \<and> n \<le> 60 \<longrightarrow> assign_content n result =
        (case result_tiktok result of
           Absent \<Rightarrow> Inl TypeError
         | Part d \<Rightarrow> Inr \<lparr>focusScore = n, type = ''tiktok'',
                          data = js_or d (result_data result), timestamp = None\<rparr>)"
    by (simp add: assign_content_def built)
  have b4: "20 < n \<and> n \<le> 40 \<longrightarrow> assign_content n result =
        (case result_quiz result of
           Absent \<Rightarrow> Inl TypeError
         | Part d \<Rightarrow> Inr \<lparr>focusScore = n, type = ''quiz'',
                          data = js_or d (result_data result), timestamp = None\<rparr>)"
    by (simp add: assign_content_def built)
  have b5: "n \<le> 20 \<longrightarrow> assign_content n result =
        (case result_mini result of
           Absent \<Rightarrow> Inl TypeError
         | Part d \<Rightarrow> Inr \<lparr>focusScore = n, type = ''react'',
                          data = js_or d (result_data result), timestamp = None\<rparr>)"
    by (simp add: assign_content_def built)
  have same: "\<forall>c. assign_content n result = Inr c \<longrightarrow> type c = newType n \<and> focusScore c = n"
    by (auto simp: assign_content_def make_content_def newType_def split: if_splits sum.splits)
  have total: "result_text result \<noteq> Absent \<and> result_flipcard result \<noteq> Absent
        \<and> result_tiktok result \<noteq> Absent \<and> result_quiz result \<noteq> Absent
        \<and> result_mini result \<noteq> Absent \<longrightarrow>
        (\<exists>d. assign_content n result =
           Inr \<lparr>focusScore = n, type = newType n, data = d, timestamp = None\<rparr>)"
  proof
    assume present: "result_text result \<noteq> Absent \<and> result_flipcard result \<noteq> Absent
        \<and> result_tiktok result \<noteq> Absent \<and> result_quiz result \<noteq> Absent
        \<and> result_mini result \<noteq> Absent"
    then obtain d1 d2 d3 d4 d5 where
      "result_text result = Part d1" "result_flipcard result = Part d2"
      "result_tiktok result = Part d3" "result_quiz result = Part d4"
      "result_mini result = Part d5"
      by (metis part.exhaust)
    then show "\<exists>d. assign_content n result =
           Inr \<lparr>focusScore = n, type = newType n, data = d, timestamp = None\<rparr>"
      by (simp add: assign_content_def built newType_def)
  qed
  show ?thesis
    by (intro conjI) (rule n1 n2 n3 n4 n5 n6 b1 b2 b3 b4 b5 same total)+
qed

theorem classification_bands_witness:
  "newType 100 = ''text'' \<and> newType 81 = ''text'' \<and> newType 80 = ''flipcard''
   \<and> newType 61 = ''flipcard'' \<and> newType 60 = ''tiktok'' \<and> newType 41 = ''tiktok''
   \<and> newType 40 = ''quiz'' \<and> newType 21 = ''quiz'' \<and> newType 20 = ''react''
   \<and> newType 0 = ''react''
   \<and> assign_content 81
        \<lparr>result_text = Part (JObject 1), result_flipcard = Part (JObject 2),
         result_tiktok = Part (JObject 3), result_quiz = Part (JObject 4),
         result_mini = Part (JObject 5), result_data = JObject 6\<rparr>
      = Inr \<lparr>focusScore = 81, type = ''text'', data = JObject 1, timestamp = None\<rparr>
   \<and> assign_content 80
        \<lparr>result_text = Part (JObject 1), result_flipcard = Part (JObject 2),
         result_tiktok = Part (JObject 3), result_quiz = Part (JObject 4),
         result_mini = Part (JObject 5), result_data = JObject 6\<rparr>
      = Inr \<lparr>focusScore = 80, type = ''flipcard'', data = JObject 2, timestamp = None\<rparr>
   \<and> assign_content 60
        \<lparr>result_text = Part (JObject 1), result_flipcard = Part (JObject 2),
         result_tiktok = Part (JObject 3), result_quiz = Part (JObject 4),
         result_mini = Part (JObject 5), result_data = JObject 6\<rparr>
      = Inr \<lparr>focusScore = 60, type = ''tiktok'', data = JObject 3, timestamp = None\<rparr>
   \<and> assign_content 40
        \<lparr>result_text = Part (JObject 1), result_flipcard = Part (JObject 2),
         result_tiktok = Part (JObject 3), result_quiz = Part Undefined,
         result_mini = Part (JObject 5), result_data = JObject 6\<rparr>
      = Inr \<lparr>focusScore = 40, type = ''quiz'', data = JObject 6, timestamp = None\<rparr>
   \<and> assign_content 20
        \<lparr>result_text = Part (JObject 1), result_flipcard = Part (JObject 2),
         result_tiktok = Part (JObject 3), result_quiz = Part (JObject 4),
         result_mini = Part (JObject 5), result_data = JObject 6\<rparr>
      = Inr \<lparr>focusScore = 20, type = ''react'', data = JObject 5, timestamp = None\<rparr>
   \<and> assign_content 0
        \<lparr>result_text = Part (JObject 1), result_flipcard = Part (JObject 2),
         result_tiktok = Part (JObject 3), result_quiz = Part (JObject 4),
         result_mini = Absent, result_data = JObject 6\<rparr>
      = Inl TypeError"
proof -
  let ?r = "\<lparr>result_text = Part (JObject 1), result_flipcard = Part (JObject 2),
         result_tiktok = Part (JObject 3), result_quiz = Part (JObject 4),
         result_mini = Part (JObject 5), result_data = JObject 6\<rparr>"
  have t100: "newType 100 = ''text''"
    using classification_bands [of 100 ?r] by simp
  have t81: "newType 81 = ''text''"
    using classification_bands [of 81 ?r] by simp
  have t80: "newType 80 = ''flipcard''"
    using classification_bands [of 80 ?r] by simp
  have t61: "newType 61 = ''flipcard''"
    using classification_bands [of 61 ?r] by simp
  have t60: "newType 60 = ''tiktok''"
    using classification_bands [of 60 ?r] by simp
  have t41: "newType 41 = ''tiktok''"
    using classification_bands [of 41 ?r] by simp
  have t40: "newType 40 = ''quiz''"
    using classification_bands [of 40 ?r] by simp
  have t21: "newType 21 = ''quiz''"
    using classification_bands [of 21 ?r] by simp
  have t20: "newType 20 = ''react''"
    using classification_bands [of 20 ?r] by simp
  have t0: "newType 0 = ''react''"
    using classification_bands [of 0 ?r] by simp
  have a81: "assign_content 81 ?r
      = Inr \<lparr>focusScore = 81, type = ''text'', data = JObject 1, timestamp = None\<rparr>"
    using classification_bands [of 81 ?r] by (simp add: js_or_def)
  have a80: "assign_content 80 ?r
      = Inr \<lparr>focusScore = 80, type = ''flipcard'', data = JObject 2, timestamp = None\<rparr>"
    using classification_bands [of 80 ?r] by (simp add: js_or_def)
  have a60: "assign_content 60 ?r
      = Inr \<lparr>focusScore = 60, type = ''tiktok'', data = JObject 3, timestamp = None\<rparr>"
    using classification_bands [of 60 ?r] by (simp add: js_or_def)
  have a40: "assign_content 40 (?r\<lparr>result_quiz := Part Undefined\<rparr>)
      = Inr \<lparr>focusScore = 40, type = ''quiz'', data = JObject 6, timestamp = None\<rparr>"
    using classification_bands [of 40 "?r\<lparr>result_quiz := Part Undefined\<rparr>"]
    by (simp add: js_or_def)
  have a20: "assign_content 20 ?r
      = Inr \<lparr>focusScore = 20, type = ''react'', data = JObject 5, timestamp = None\<rparr>"
    using classification_bands [of 20 ?r] by (simp add: js_or_def)
  have a0: "assign_content 0 (?r\<lparr>result_mini := Absent\<rparr>) = Inl TypeError"
    using classification_bands [of 0 "?r\<lparr>result_mini := Absent\<rparr>"] by simp
  from t100 t81 t80 t61 t60 t41 t40 t21 t20 t0 a81 a80 a60 a40 a20 a0 show ?thesis
    by simp
qed

section \<open>When the suggestion dialog opens\<close>

lemma floor_rat_divide_numeral [simp]:
  "\<lfloor>(numeral a :: rat) / numeral b\<rfloor> = numeral a div numeral b"
  by (metis floor_divide_of_int_eq of_int_numeral)

lemma Math_round_of_int [simp]: "Math_round (rat_of_int k) = k"
  by (simp add: Math_round_def) linarith

lemma focusScoreUpdate_Some:
  "focusScoreUpdate (Some x) t =
     (t\<lparr>trackerAttentionLevel := Math_round x,
        focusScoreHistory := pushHistory (focusScoreHistory t) (Math_round x)\<rparr>, [])"
  by (simp add: focusScoreUpdate_def Let_def)

lemma pushHistory_not_Nil: "pushHistory h x \<noteq> []"
  by (simp add: pushHistory_def slice_last_def FOCUS_HISTORY_SIZE_def Let_def)

lemma tracker_step_sample:
  "tracker_step now (FocusScoreUpdate (Some x)) t =
     run_effect now (t\<lparr>trackerAttentionLevel := Math_round x,
        focusScoreHistory := pushHistory (focusScoreHistory t) (Math_round x)\<rparr>)"
  by (simp add: tracker_step_def commit_def focusScoreUpdate_Some split: prod.splits)





section \<open>What a socket event does to the window\<close>

lemma pushHistory_slice: "pushHistory h r = slice_last 5 (h @ [r])"
  by (simp add: pushHistory_def slice_last_def FOCUS_HISTORY_SIZE_def Let_def)

lemma run_effect_history [simp]:
  "focusScoreHistory (fst (run_effect now t)) = focusScoreHistory t"
  by (simp add: run_effect_cases)

lemma run_effect_last [simp]:
  "lastSuggestionTimeRef (fst (run_effect now t)) = lastSuggestionTimeRef t"
  by (simp add: run_effect_cases)

lemma run_effect_average:
  "focusScoreHistory t \<noteq> [] \<Longrightarrow>
     averageFocusScore (fst (run_effect now t)) = average (focusScoreHistory t)"
  by (simp add: run_effect_cases)

lemma run_effect_show:
  "showContentSuggestionModal (fst (run_effect now t)) \<longleftrightarrow>
     showContentSuggestionModal t \<or> (focusScoreHistory t \<noteq> [] \<and> opens now t)"
  by (simp add: run_effect_cases)

lemma run_effect_count:
  "length (notifications (snd (run_effect now t))) =
     (if focusScoreHistory t = [] then 0 else if opens now t then 2 else 1)"
  by (simp add: run_effect_cases)

lemma tracker_step_undefined:
  "tracker_step now (FocusScoreUpdate None) t = (t, [ConsoleError])"
  by (simp add: tracker_step_def commit_def focusScoreUpdate_def)

text \<open>
  Claim C7, as amended. Take a payload that carries \<open>focusScore\<close> either as \<open>undefined\<close> or
  as a finite number. The handler refuses the one with \<open>undefined\<close>: it logs an error and
  leaves the whole tracker, window and smoothed signal included, as it was, and the
  callback is not called. Every number is accepted: it is rounded by \<open>Math.round\<close> and
  pushed, whether or not it is an integer and whether or not it lies in 0..100. While the
  score and the scores in the window are at most \<open>2^31\<close> in magnitude, where the mean of
  lines 182-183 is computed without rounding error, the smoothed signal becomes the rounded
  mean of the new window.
\<close>

theorem only_undefined_is_rejected:
  "tracker_step now (FocusScoreUpdate None) t = (t, [ConsoleError])
   \<and> focusScoreHistory (fst (tracker_step now (FocusScoreUpdate (Some x)) t))
       = slice_last 5 (focusScoreHistory t @ [Math_round x])
   \<and> ((\<forall>v \<in> set (focusScoreHistory t). \<bar>v\<bar> \<le> 2147483648) \<and> \<bar>x\<bar> \<le> 2147483648 \<longrightarrow>
        averageFocusScore (fst (tracker_step now (FocusScoreUpdate (Some x)) t))
          = round (rat_of_int (sum_list (slice_last 5 (focusScoreHistory t @ [Math_round x])))
                   / rat_of_nat (length (slice_last 5 (focusScoreHistory t @ [Math_round x])))))"
proof (intro conjI impI)
  show "tracker_step now (FocusScoreUpdate None) t = (t, [ConsoleError])"
    by (rule tracker_step_undefined)
  show "focusScoreHistory (fst (tracker_step now (FocusScoreUpdate (Some x)) t))
       = slice_last 5 (focusScoreHistory t @ [Math_round x])"
    by (simp add: tracker_step_sample pushHistory_slice)
  have "averageFocusScore (fst (tracker_step now (FocusScoreUpdate (Some x)) t))
      = average (pushHistory (focusScoreHistory t) (Math_round x))"
    by (simp add: tracker_step_sample run_effect_average pushHistory_not_Nil)
  then show "averageFocusScore (fst (tracker_step now (FocusScoreUpdate (Some x)) t))
          = round (rat_of_int (sum_list (slice_last 5 (focusScoreHistory t @ [Math_round x])))
                   / rat_of_nat (length (slice_last 5 (focusScoreHistory t @ [Math_round x]))))"
    by (simp add: average_round pushHistory_slice)
qed

theorem only_undefined_is_rejected_witness:
  "focusScoreHistory (fst (tracker_step 3 (FocusScoreUpdate (Some 150))
      (initial_tracker\<lparr>focusScoreHistory := [10, 200]\<rparr>))) = [10, 200, 150]
   \<and> averageFocusScore (fst (tracker_step 3 (FocusScoreUpdate (Some 150))
      (initial_tracker\<lparr>focusScoreHistory := [10, 200]\<rparr>))) = 120
   \<and> focusScoreHistory (fst (tracker_step 3 (FocusScoreUpdate (Some (5 / 2)))
      (initial_tracker\<lparr>focusScoreHistory := [10, 200]\<rparr>))) = [10, 200, 3]
   \<and> averageFocusScore (fst (tracker_step 3 (FocusScoreUpdate (Some (5 / 2)))
      (initial_tracker\<lparr>focusScoreHistory := [10, 200]\<rparr>))) = 71"
proof -
  let ?t = "initial_tracker\<lparr>focusScoreHistory := [10, 200]\<rparr>"
  have r150: "Math_round 150 = 150" and r25: "Math_round (5 / 2) = 3"
    by (simp_all add: Math_round_def)
  have m150: "round (rat_of_int (sum_list [10, 200, 150]) / rat_of_nat (length [10, -20, 150 :: int])) = 120"
    by (simp add: round_def)
  have m25: "round (rat_of_int (sum_list [10, 200, 3]) / rat_of_nat (length [10, -20, 3 :: int])) = 71"
    by (simp add: round_def)
  have a: "focusScoreHistory (fst (tracker_step 3 (FocusScoreUpdate (Some 150)) ?t)) = [10, 200, 150]
     \<and> averageFocusScore (fst (tracker_step 3 (FocusScoreUpdate (Some 150)) ?t)) = 120"
    using only_undefined_is_rejected [of 3 ?t 150] r150 m150
    by (simp add: slice_last_def)
  have b: "focusScoreHistory (fst (tracker_step 3 (FocusScoreUpdate (Some (5 / 2))) ?t)) = [10, 200, 3]
     \<and> averageFocusScore (fst (tracker_step 3 (FocusScoreUpdate (Some (5 / 2))) ?t)) = 71"
    using only_undefined_is_rejected [of 3 ?t "5 / 2"] r25 m25
    by (simp add: slice_last_def)
  from a b show ?thesis by simp
qed

text \<open>
  The claim as written has a non-integer score and a score outside 0..100 rejected. From
  the initial state, 150 enters the window and becomes the smoothed signal, and 2.5 enters
  as 3.
\<close>

theorem malformed_sample_counterexample:
  "focusScoreHistory (fst (tracker_step 1 (FocusScoreUpdate (Some 150)) initial_tracker)) = [150]
   \<and> averageFocusScore (fst (tracker_step 1 (FocusScoreUpdate (Some 150)) initial_tracker)) = 150
   \<and> focusScoreHistory (fst (tracker_step 1 (FocusScoreUpdate (Some (5 / 2))) initial_tracker)) = [3]
   \<and> averageFocusScore (fst (tracker_step 1 (FocusScoreUpdate (Some (5 / 2))) initial_tracker)) = 3
   \<and> focusScoreHistory initial_tracker = []
   \<and> averageFocusScore initial_tracker = 75"
  by code_simp

section \<open>How often the callback is called\<close>

text \<open>
  Claim C8, as amended. A socket event with a number calls \<open>onAttentionChange\<close> once, and
  twice when the event opens the dialog: \<open>showContentSuggestionModal\<close> is a dependency of
  the effect, so the change of the flag runs the effect a second time. An \<open>undefined\<close>
  score calls it not at all. Closing the dialog, by "Dismiss" or by the dialog's own
  \<open>onOpenChange\<close>, changes the flag too and so calls the callback although no sample came.
\<close>

theorem notification_count:
  "length (notifications (snd (tracker_step now (FocusScoreUpdate score) t))) =
     (if score = None then 0
      else if \<not> showContentSuggestionModal t
           \<and> showContentSuggestionModal (fst (tracker_step now (FocusScoreUpdate score) t))
      then 2 else 1)
   \<and> (showContentSuggestionModal t \<and> focusScoreHistory t \<noteq> [] \<longrightarrow>
        notifications (snd (tracker_step now DismissClicked t)) \<noteq> []
        \<and> notifications (snd (tracker_step now (DialogOpenChange False) t)) \<noteq> [])"
proof (intro conjI impI)
  show "length (notifications (snd (tracker_step now (FocusScoreUpdate score) t))) =
     (if score = None then 0
      else if \<not> showContentSuggestionModal t
           \<and> showContentSuggestionModal (fst (tracker_step now (FocusScoreUpdate score) t))
      then 2 else 1)"
  proof (cases score)
    case None
    then show ?thesis by (simp add: tracker_step_undefined)
  next
    case (Some x)
    then show ?thesis
      by (auto simp: tracker_step_sample run_effect_count run_effect_show pushHistory_not_Nil
          opens_def)
  qed
next
  assume a: "showContentSuggestionModal t \<and> focusScoreHistory t \<noteq> []"
  have "length (notifications (snd (tracker_step now DismissClicked t))) \<noteq> 0"
    using a
    by (simp add: tracker_step_def commit_def handleDismissSuggestion_def run_effect_count
        split: prod.splits)
  then show "notifications (snd (tracker_step now DismissClicked t)) \<noteq> []"
    by auto
  have "length (notifications (snd (tracker_step now (DialogOpenChange False) t))) \<noteq> 0"
    using a
    by (simp add: tracker_step_def commit_def onOpenChange_def run_effect_count
        split: prod.splits)
  then show "notifications (snd (tracker_step now (DialogOpenChange False) t)) \<noteq> []"
    by auto
qed

theorem notification_count_witness:
  "length (notifications (snd (tracker_step 5 (FocusScoreUpdate (Some 10))
      (initial_tracker\<lparr>focusScoreHistory := [10, 10, 10, 10]\<rparr>)))) = 2
   \<and> notifications (snd (tracker_step 9 DismissClicked
      (initial_tracker\<lparr>focusScoreHistory := [10, 10, 10, 10, 10],
         showContentSuggestionModal := True\<rparr>))) \<noteq> []"
proof -
  have opened: "showContentSuggestionModal (fst (tracker_step 5 (FocusScoreUpdate (Some 10))
      (initial_tracker\<lparr>focusScoreHistory := [10, 10, 10, 10]\<rparr>)))"
    by code_simp
  show ?thesis
    using opened
      notification_count [of 5 "Some 10" "initial_tracker\<lparr>focusScoreHistory := [10, 10, 10, 10]\<rparr>"]
      notification_count [of 9 None "initial_tracker\<lparr>focusScoreHistory := [10, 10, 10, 10, 10],
         showContentSuggestionModal := True\<rparr>"]
    by (simp add: initial_tracker_def)
qed

text \<open>
  The claim as written allows one call per event and none for a change of the dialog. The
  fifth score of 10 opens the dialog and calls the callback twice; "Dismiss" then calls it
  once more.
\<close>

theorem second_notification_counterexample:
  "notifications (snd (tracker_step 5 (FocusScoreUpdate (Some 10))
      (tracker_run [(1, FocusScoreUpdate (Some 10)), (2, FocusScoreUpdate (Some 10)),
         (3, FocusScoreUpdate (Some 10)), (4, FocusScoreUpdate (Some 10))] initial_tracker)))
     = [\<lparr>attentionLevel = 10, shouldSwitchContent = False\<rparr>,
        \<lparr>attentionLevel = 10, shouldSwitchContent = False\<rparr>]
   \<and> notifications (snd (tracker_step 1000 DismissClicked
      (tracker_run [(1, FocusScoreUpdate (Some 10)), (2, FocusScoreUpdate (Some 10)),
         (3, FocusScoreUpdate (Some 10)), (4, FocusScoreUpdate (Some 10)),
         (5, FocusScoreUpdate (Some 10))] initial_tracker)))
     = [\<lparr>attentionLevel = 10, shouldSwitchContent = False\<rparr>]"
  by code_simp

section \<open>Closing the dialog without its buttons\<close>






section \<open>The smoothed signal\<close>

lemma slice_last_rev: "slice_last n xs = rev (take n (rev xs))"
  by (simp add: slice_last_def rev_drop [symmetric] take_rev)

lemma slice_last_append_slice:
  "slice_last n (slice_last n a @ b) = slice_last n (a @ b)"
  by (simp add: slice_last_rev min_def)

lemma length_slice_last: "length (slice_last n xs) = min (length xs) n"
  by (simp add: slice_last_def)

lemma sample_step_history:
  "focusScoreHistory (fst (tracker_step now (FocusScoreUpdate (Some x)) t))
     = slice_last 5 (focusScoreHistory t @ [Math_round x])"
  by (simp add: tracker_step_sample pushHistory_slice)

lemma sample_step_average:
  "averageFocusScore (fst (tracker_step now (FocusScoreUpdate (Some x)) t))
     = average (focusScoreHistory (fst (tracker_step now (FocusScoreUpdate (Some x)) t)))"
  by (simp add: tracker_step_sample run_effect_average pushHistory_not_Nil)

lemma samples_history:
  "length ts = length xs \<Longrightarrow> length (focusScoreHistory t) \<le> 5 \<Longrightarrow>
     focusScoreHistory
       (tracker_run (zip ts (map (\<lambda>x. FocusScoreUpdate (Some (rat_of_int x))) xs)) t)
     = slice_last 5 (focusScoreHistory t @ xs)"
proof (induction xs arbitrary: ts t)
  case Nil
  then show ?case
    by (simp add: slice_last_def)
next
  case (Cons x xs)
  then obtain now ts' where ts: "ts = now # ts'" and len: "length ts' = length xs"
    by (cases ts) auto
  let ?t1 = "fst (tracker_step now (FocusScoreUpdate (Some (rat_of_int x))) t)"
  have short: "length (focusScoreHistory ?t1) \<le> 5"
    by (simp add: sample_step_history length_slice_last)
  show ?case
    using Cons.IH [OF len short] slice_last_append_slice [of 5 "focusScoreHistory t @ [x]" xs]
    by (simp add: ts sample_step_history)
qed

lemma samples_average:
  "xs \<noteq> [] \<Longrightarrow> length ts = length xs \<Longrightarrow>
     averageFocusScore
       (tracker_run (zip ts (map (\<lambda>x. FocusScoreUpdate (Some (rat_of_int x))) xs)) t)
     = average (focusScoreHistory
         (tracker_run (zip ts (map (\<lambda>x. FocusScoreUpdate (Some (rat_of_int x))) xs)) t))"
proof (induction xs arbitrary: ts t)
  case Nil
  then show ?case by simp
next
  case (Cons x xs)
  then obtain now ts' where ts: "ts = now # ts'" and len: "length ts' = length xs"
    by (cases ts) auto
  show ?case
  proof (cases "xs = []")
    case True
    then show ?thesis
      by (simp add: ts sample_step_average)
  next
    case False
    from Cons.IH [OF False len] show ?thesis
      by (simp add: ts)
  qed
qed

text \<open>
  Claim C3. Start with an empty window and feed any non-empty sequence \<open>xs\<close> of integer
  scores, at any times \<open>ts\<close>. The window then holds the last \<open>min (length xs) 5\<close> scores in
  their order of arrival, and the smoothed signal is the rounded arithmetic mean of exactly
  those: of all scores while there are at most 5, of the last 5 after that.
\<close>

theorem smoothed_signal_is_mean_of_last_five:
  assumes "xs \<noteq> []" and "length ts = length xs" and "focusScoreHistory t = []"
  shows "focusScoreHistory
           (tracker_run (zip ts (map (\<lambda>x. FocusScoreUpdate (Some (rat_of_int x))) xs)) t)
         = drop (length xs - 5) xs
    \<and> averageFocusScore
           (tracker_run (zip ts (map (\<lambda>x. FocusScoreUpdate (Some (rat_of_int x))) xs)) t)
         = round (rat_of_int (sum_list (drop (length xs - 5) xs))
                  / rat_of_nat (min (length xs) 5))"
proof -
  let ?r = "tracker_run (zip ts (map (\<lambda>x. FocusScoreUpdate (Some (rat_of_int x))) xs)) t"
  have h: "focusScoreHistory ?r = drop (length xs - 5) xs"
    using samples_history [OF assms(2), of t] assms(3) by (simp add: slice_last_def)
  have "averageFocusScore ?r = average (drop (length xs - 5) xs)"
    using samples_average [OF assms(1,2), of t] h by simp
  then have "averageFocusScore ?r
      = round (rat_of_int (sum_list (drop (length xs - 5) xs)) / rat_of_nat (min (length xs) 5))"
    by (simp add: average_round min_def)
  with h show ?thesis by simp
qed

theorem smoothed_signal_is_mean_of_last_five_witness:
  "averageFocusScore
     (tracker_run (zip [1, 2, 3, 4, 5, 6, 7]
        (map (\<lambda>x. FocusScoreUpdate (Some (rat_of_int x))) [90, 85, 88, 92, 91, 15, 18]))
        initial_tracker) = 61
   \<and> focusScoreHistory
     (tracker_run (zip [1, 2, 3, 4, 5, 6, 7]
        (map (\<lambda>x. FocusScoreUpdate (Some (rat_of_int x))) [90, 85, 88, 92, 91, 15, 18]))
        initial_tracker) = [88, 92, 91, 15, 18]"
proof -
  have h1: "[90, 85, 88, 92, 91, 15, 18] \<noteq> ([] :: int list)" by simp
  have h2: "length [1, 2, 3, 4, 5, 6, 7 :: int] = length [90, 85, 88, 92, 91, 15, 18 :: int]" by simp
  have h3: "focusScoreHistory initial_tracker = []" by (simp add: initial_tracker_def)
  have r: "round (rat_of_int (sum_list (drop (length [90, 85, 88, 92, 91, 15, 18 :: int] - 5)
              [90, 85, 88, 92, 91, 15, 18]))
            / rat_of_nat (min (length [90, 85, 88, 92, 91, 15, 18 :: int]) 5)) = 61"
    by (simp add: round_def)
  show ?thesis
    using smoothed_signal_is_mean_of_last_five [OF h1 h2 h3] r by simp
qed

section \<open>A confirmed switch\<close>

text \<open>
  After the handler the effect of lines 162-166 finds nothing to do, and after one run of
  the effect a second run finds nothing to do: one run of it per commit is all there is.
\<close>

lemma attention_effect_after_handler:
  "attention_effect now' (fst (handleAttentionChange now n d))
     = (fst (handleAttentionChange now n d), [])"
  by (simp add: attention_effect_def handleAttentionChange_def updateContentType_def Let_def
      split: option.splits)

lemma attention_effect_idempotent:
  "attention_effect now' (fst (attention_effect now d)) = (fst (attention_effect now d), [])"
  by (simp add: attention_effect_def updateContentType_def split: option.splits)

text \<open>
  Claim C6. When the level of a confirmed switch gives the type that is current already,
  \<open>updateContentType\<close> returns the dashboard as it was and does nothing else: no fetch, no
  log. The whole call of the callback stores the notification as \<open>attentionData\<close> and
  leaves \<open>currentData\<close>, with its type, payload, focus score and timestamp, untouched.
\<close>

theorem same_format_switch_is_noop:
  assumes "currentData d = Some c" and "newType level = type c"
  shows "updateContentType now level d = (d, [])
    \<and> dashboard_notify now \<lparr>attentionLevel = level, shouldSwitchContent = True\<rparr> d
        = (d\<lparr>attentionData := \<lparr>attentionLevel = level, shouldSwitchContent = True\<rparr>\<rparr>, [])
    \<and> currentData (fst (dashboard_notify now \<lparr>attentionLevel = level, shouldSwitchContent = True\<rparr> d))
        = Some c"
  using assms
  by (simp add: dashboard_notify_def handleAttentionChange_def attention_effect_def
      updateContentType_def Let_def)

theorem same_format_switch_is_noop_witness:
  "dashboard_notify 7 \<lparr>attentionLevel = 85, shouldSwitchContent = True\<rparr>
     (initial_dashboard\<lparr>currentData :=
        Some \<lparr>focusScore = 89, type = ''text'', data = JObject 1, timestamp = None\<rparr>\<rparr>)
   = (initial_dashboard\<lparr>currentData :=
        Some \<lparr>focusScore = 89, type = ''text'', data = JObject 1, timestamp = None\<rparr>,
        attentionData := \<lparr>attentionLevel = 85, shouldSwitchContent = True\<rparr>\<rparr>, [])"
proof -
  let ?c = "\<lparr>focusScore = 89, type = ''text'', data = JObject 1, timestamp = None\<rparr>"
  have h1: "currentData (initial_dashboard\<lparr>currentData := Some ?c\<rparr>) = Some ?c" by simp
  have h2: "newType 85 = type ?c" by (simp add: newType_def)
  show ?thesis
    using same_format_switch_is_noop [OF h1 h2, of 7] by (simp add: initial_dashboard_def)
qed

text \<open>
  Claim C5, as amended. When the level of a confirmed switch gives another type than the
  current one, \<open>updateContentType\<close> writes the new type, the level as focus score and the
  time of the switch into the current content and keeps its payload; its only other
  effect is a console line. No request is sent.
\<close>

theorem switch_keeps_payload:
  assumes "currentData d = Some c" and "newType level \<noteq> type c"
  shows "updateContentType now level d =
       (d\<lparr>currentData :=
            Some (c\<lparr>type := newType level, focusScore := level, timestamp := Some now\<rparr>)\<rparr>,
        [ConsoleLog])
    \<and> dashboard_notify now \<lparr>attentionLevel = level, shouldSwitchContent = True\<rparr> d =
       (d\<lparr>attentionData := \<lparr>attentionLevel = level, shouldSwitchContent = True\<rparr>,
          currentData :=
            Some (c\<lparr>type := newType level, focusScore := level, timestamp := Some now\<rparr>)\<rparr>,
        [ConsoleLog])
    \<and> map_option data (currentData (fst (dashboard_notify now
          \<lparr>attentionLevel = level, shouldSwitchContent = True\<rparr> d))) = Some (data c)"
  using assms
  by (simp add: dashboard_notify_def handleAttentionChange_def attention_effect_def
      updateContentType_def Let_def)

theorem switch_keeps_payload_witness:
  "dashboard_notify 7 \<lparr>attentionLevel = 15, shouldSwitchContent = True\<rparr>
     (initial_dashboard\<lparr>currentData :=
        Some \<lparr>focusScore = 89, type = ''text'', data = JObject 1, timestamp = None\<rparr>\<rparr>)
   = (initial_dashboard\<lparr>currentData :=
        Some \<lparr>focusScore = 15, type = ''react'', data = JObject 1, timestamp = Some 7\<rparr>,
        attentionData := \<lparr>attentionLevel = 15, shouldSwitchContent = True\<rparr>\<rparr>, [ConsoleLog])"
proof -
  let ?c = "\<lparr>focusScore = 89, type = ''text'', data = JObject 1, timestamp = None\<rparr>"
  have h1: "currentData (initial_dashboard\<lparr>currentData := Some ?c\<rparr>) = Some ?c" by simp
  have h2: "newType 15 \<noteq> type ?c" by (simp add: newType_def)
  show ?thesis
    using switch_keeps_payload [OF h1 h2, of 7] by (simp add: initial_dashboard_def newType_def)
qed

text \<open>
  The claim as written has a fetch for the new format and a payload that belongs to it.
  With a score of 89 the fetch stores type \<open>text\<close> with the payload of \<open>result.text\<close>
  (object 1). A confirmed switch at level 15 then makes the type \<open>react\<close>; the payload is
  still object 1, not the payload of \<open>result.mini\<close> (object 5), and the single effect is
  a console line.
\<close>

theorem no_fetch_on_switch_counterexample:
  "currentData (fst (handleFileView 0 ''a.pdf''
      (Response True (Some \<lparr>result_text = Part (JObject 1), result_flipcard = Part (JObject 2),
         result_tiktok = Part (JObject 3), result_quiz = Part (JObject 4),
         result_mini = Part (JObject 5), result_data = Undefined\<rparr>))
      (initial_dashboard\<lparr>attentionData := \<lparr>attentionLevel = 89, shouldSwitchContent = False\<rparr>\<rparr>)))
     = Some \<lparr>focusScore = 89, type = ''text'', data = JObject 1, timestamp = None\<rparr>
   \<and> newType 15 = ''react''
   \<and> dashboard_notify 7 \<lparr>attentionLevel = 15, shouldSwitchContent = True\<rparr>
       (fst (handleFileView 0 ''a.pdf''
          (Response True (Some \<lparr>result_text = Part (JObject 1), result_flipcard = Part (JObject 2),
             result_tiktok = Part (JObject 3), result_quiz = Part (JObject 4),
             result_mini = Part (JObject 5), result_data = Undefined\<rparr>))
          (initial_dashboard\<lparr>attentionData := \<lparr>attentionLevel = 89, shouldSwitchContent = False\<rparr>\<rparr>)))
     = (\<lparr>selectedFile = Some ''a.pdf'',
         currentData = Some \<lparr>focusScore = 15, type = ''react'', data = JObject 1, timestamp = Some 7\<rparr>,
         isLoading = False,
         attentionData = \<lparr>attentionLevel = 15, shouldSwitchContent = True\<rparr>\<rparr>,
        [ConsoleLog])"
  by code_simp

section \<open>A fetch that fails\<close>

lemma fetchContent_failed:
  "fetch_try (attentionLevel (attentionData d)) resp = Inl e \<Longrightarrow>
     fst (fetchContent resp d) = (case selectedFile d of
        None \<Rightarrow> d
      | Some f \<Rightarrow> d\<lparr>isLoading := False\<rparr>)"
  by (simp add: fetchContent_def split: option.splits)

text \<open>
  Claim C9. \<open>fetchContent\<close> leaves \<open>currentData\<close> as it was when \<open>fetch\<close> rejects, when the
  response is not OK, when its body does not parse, and when the body lacks the part the
  focus score selects (reading \<open>.data\<close> of it throws). In general, whenever the \<open>try\<close> block
  ends in an error, \<open>currentData\<close>, \<open>attentionData\<close> and \<open>selectedFile\<close> are unchanged, also
  after the whole handling of a file selection.
\<close>

theorem failed_fetch_keeps_content:
  "currentData (fst (fetchContent NetworkFailure d)) = currentData d
   \<and> currentData (fst (fetchContent (Response False body) d)) = currentData d
   \<and> currentData (fst (fetchContent (Response True None) d)) = currentData d
   \<and> (assign_content (attentionLevel (attentionData d)) result = Inl e \<longrightarrow>
        currentData (fst (fetchContent (Response True (Some result)) d)) = currentData d)
   \<and> (fetch_try (attentionLevel (attentionData d)) resp = Inl e \<longrightarrow>
        currentData (fst (fetchContent resp d)) = currentData d
        \<and> attentionData (fst (fetchContent resp d)) = attentionData d
        \<and> selectedFile (fst (fetchContent resp d)) = selectedFile d
        \<and> currentData (fst (handleFileView now f resp d)) = currentData d)"
proof (intro conjI impI)
  show "currentData (fst (fetchContent NetworkFailure d)) = currentData d"
    by (simp add: fetchContent_def fetch_try_def split: option.splits)
  show "currentData (fst (fetchContent (Response False body) d)) = currentData d"
    by (simp add: fetchContent_def fetch_try_def split: option.splits)
  show "currentData (fst (fetchContent (Response True None) d)) = currentData d"
    by (simp add: fetchContent_def fetch_try_def split: option.splits)
next
  assume "assign_content (attentionLevel (attentionData d)) result = Inl e"
  then show "currentData (fst (fetchContent (Response True (Some result)) d)) = currentData d"
    by (simp add: fetchContent_def fetch_try_def split: option.splits)
next
  assume fails: "fetch_try (attentionLevel (attentionData d)) resp = Inl e"
  then show "currentData (fst (fetchContent resp d)) = currentData d"
    and "attentionData (fst (fetchContent resp d)) = attentionData d"
    and "selectedFile (fst (fetchContent resp d)) = selectedFile d"
    by (simp_all add: fetchContent_failed split: option.splits)
  from fails have "fetch_try (attentionLevel (attentionData (d\<lparr>selectedFile := Some f\<rparr>))) resp = Inl e"
    by simp
  from fetchContent_failed [OF this]
  show "currentData (fst (handleFileView now f resp d)) = currentData d"
    by (cases "fetchContent resp (d\<lparr>selectedFile := Some f\<rparr>)") (simp add: handleFileView_def)
qed

theorem failed_fetch_keeps_content_witness:
  "currentData (fst (fetchContent
      (Response True (Some \<lparr>result_text = Part (JObject 1), result_flipcard = Absent,
         result_tiktok = Part (JObject 3), result_quiz = Part (JObject 4),
         result_mini = Part (JObject 5), result_data = Undefined\<rparr>))
      (initial_dashboard\<lparr>selectedFile := Some ''b.pdf'', currentData :=
        Some \<lparr>focusScore = 89, type = ''text'', data = JObject 1, timestamp = None\<rparr>\<rparr>)))
   = Some \<lparr>focusScore = 89, type = ''text'', data = JObject 1, timestamp = None\<rparr>
   \<and> currentData (fst (handleFileView 3 ''c.pdf''
      (Response True (Some \<lparr>result_text = Part (JObject 1), result_flipcard = Absent,
         result_tiktok = Part (JObject 3), result_quiz = Part (JObject 4),
         result_mini = Part (JObject 5), result_data = Undefined\<rparr>))
      (initial_dashboard\<lparr>selectedFile := Some ''b.pdf'', currentData :=
        Some \<lparr>focusScore = 89, type = ''text'', data = JObject 1, timestamp = None\<rparr>\<rparr>)))
   = Some \<lparr>focusScore = 89, type = ''text'', data = JObject 1, timestamp = None\<rparr>"
proof -
  let ?r = "\<lparr>result_text = Part (JObject 1), result_flipcard = Absent,
         result_tiktok = Part (JObject 3), result_quiz = Part (JObject 4),
         result_mini = Part (JObject 5), result_data = Undefined\<rparr>"
  let ?d = "initial_dashboard\<lparr>selectedFile := Some ''b.pdf'', currentData :=
        Some \<lparr>focusScore = 89, type = ''text'', data = JObject 1, timestamp = None\<rparr>\<rparr>"
  have h: "assign_content (attentionLevel (attentionData ?d)) ?r = Inl TypeError"
    by (simp add: initial_dashboard_def assign_content_def make_content_def part_data_def)
  then have h': "fetch_try (attentionLevel (attentionData ?d)) (Response True (Some ?r)) = Inl TypeError"
    by (simp add: fetch_try_def)
  show ?thesis
    using failed_fetch_keeps_content
      [of ?d "Some ?r" ?r TypeError "Response True (Some ?r)" 3 "''c.pdf''"] h h'
    by simp
qed

section \<open>Attention alone never switches the content\<close>

lemma notifications_append [simp]:
  "notifications (xs @ ys) = notifications xs @ notifications ys"
  by (induction xs rule: notifications.induct) simp_all

lemma run_effect_never_switches:
  "n \<in> set (notifications (snd (run_effect now t))) \<Longrightarrow> \<not> shouldSwitchContent n"
  by (auto simp: run_effect_cases split: if_splits)

lemma commit_notifications:
  "notifications (snd (commit now b t (t1, []))) =
     (if b \<or> showContentSuggestionModal t1 \<noteq> showContentSuggestionModal t
      then notifications (snd (run_effect now t1)) else [])"
  by (simp add: commit_def split: prod.splits)

lemma commit_never_switches:
  "n \<in> set (notifications (snd (commit now b t (t1, [])))) \<Longrightarrow> \<not> shouldSwitchContent n"
  using run_effect_never_switches [of n now t1]
  by (simp add: commit_notifications split: if_splits)

lemma tracker_step_never_switches:
  assumes "e \<noteq> SwitchContentClicked"
    and "n \<in> set (notifications (snd (tracker_step now e t)))"
  shows "\<not> shouldSwitchContent n"
proof (cases e)
  case (FocusScoreUpdate score)
  show ?thesis
  proof (cases score)
    case None
    with FocusScoreUpdate assms(2) show ?thesis
      by (simp add: tracker_step_undefined)
  next
    case (Some x)
    with FocusScoreUpdate assms(2) show ?thesis
      by (auto simp: tracker_step_sample dest: run_effect_never_switches)
  qed
next
  case SwitchContentClicked
  with assms(1) show ?thesis by simp
next
  case DismissClicked
  with assms(2) show ?thesis
    by (auto simp: tracker_step_def dest: commit_never_switches split: if_splits)
next
  case (DialogOpenChange opened)
  with assms(2) show ?thesis
    by (auto simp: tracker_step_def dest: commit_never_switches split: if_splits)
qed

lemma dashboard_notify_no_switch:
  "\<not> shouldSwitchContent n \<Longrightarrow> dashboard_notify now n d = (d\<lparr>attentionData := n\<rparr>, [])"
  by (simp add: dashboard_notify_def handleAttentionChange_def attention_effect_def Let_def)

lemma deliver_no_switch:
  "\<forall>n \<in> set (notifications outs). \<not> shouldSwitchContent n \<Longrightarrow>
     currentData (fst (deliver now outs d)) = currentData d"
proof (induction now outs d rule: deliver.induct)
  case (1 now d)
  show ?case by simp
next
  case (2 now n outs d)
  from "2.prems" have n: "\<not> shouldSwitchContent n" by simp
  from "2.prems" have rest: "\<forall>m \<in> set (notifications outs). \<not> shouldSwitchContent m" by simp
  from "2.IH" [OF _ rest, of "d\<lparr>attentionData := n\<rparr>" "[]"] n
  show ?case
    by (simp add: dashboard_notify_no_switch split: prod.splits)
qed simp_all

lemma system_step_no_switch:
  assumes "e \<noteq> SwitchContentClicked"
  shows "currentData (dashboard_state (fst (system_step now e s))) = currentData (dashboard_state s)"
proof -
  obtain t' outs where ts: "tracker_step now e (tracker_state s) = (t', outs)"
    by (cases "tracker_step now e (tracker_state s)")
  obtain d' outs' where dl: "deliver now outs (dashboard_state s) = (d', outs')"
    by (cases "deliver now outs (dashboard_state s)")
  have "\<forall>n \<in> set (notifications outs). \<not> shouldSwitchContent n"
    using tracker_step_never_switches [OF assms, of _ now "tracker_state s"] ts by simp
  from deliver_no_switch [OF this, of now "dashboard_state s"] show ?thesis
    by (simp add: system_step_def ts dl)
qed

lemma system_run_no_switch:
  "\<forall>ev \<in> set evs. snd ev \<noteq> SwitchContentClicked \<Longrightarrow>
     currentData (dashboard_state (system_run evs s)) = currentData (dashboard_state s)"
proof (induction evs arbitrary: s)
  case Nil
  show ?case by simp
next
  case (Cons ev evs)
  obtain now e where ev: "ev = (now, e)" by (cases ev)
  from Cons.prems ev have e: "e \<noteq> SwitchContentClicked" by simp
  from Cons.prems have rest: "\<forall>ev \<in> set evs. snd ev \<noteq> SwitchContentClicked" by simp
  show ?case
    using Cons.IH [OF rest, of "fst (system_step now e s)"] system_step_no_switch [OF e, of now s]
    by (simp add: ev)
qed

text \<open>
  Claim C4. Over any sequence of events without a click on "Switch Content" (scores,
  "Dismiss", the dialog closing by itself), \<open>currentData\<close> at the end is \<open>currentData\<close> at
  the start, so its type never changes. Every call of the callback made for a socket
  event, and every call made by the effect, carries \<open>shouldSwitchContent = false\<close>; and a
  call of the callback that changes \<open>currentData\<close> carries \<open>shouldSwitchContent = true\<close>.
\<close>

theorem attention_alone_never_switches:
  "((\<forall>ev \<in> set evs. snd ev \<noteq> SwitchContentClicked) \<longrightarrow>
      currentData (dashboard_state (system_run evs s)) = currentData (dashboard_state s))
   \<and> (\<forall>n \<in> set (notifications (snd (tracker_step now (FocusScoreUpdate score) t))).
        \<not> shouldSwitchContent n)
   \<and> (\<forall>n \<in> set (notifications (snd (run_effect now t))). \<not> shouldSwitchContent n)
   \<and> (currentData (fst (dashboard_notify now n d)) \<noteq> currentData d \<longrightarrow> shouldSwitchContent n)"
proof (intro conjI impI ballI)
  assume "\<forall>ev \<in> set evs. snd ev \<noteq> SwitchContentClicked"
  then show "currentData (dashboard_state (system_run evs s)) = currentData (dashboard_state s)"
    by (rule system_run_no_switch)
next
  fix m assume "m \<in> set (notifications (snd (tracker_step now (FocusScoreUpdate score) t)))"
  then show "\<not> shouldSwitchContent m"
    using tracker_step_never_switches [of "FocusScoreUpdate score" m now t] by simp
next
  fix m assume "m \<in> set (notifications (snd (run_effect now t)))"
  then show "\<not> shouldSwitchContent m"
    by (rule run_effect_never_switches)
next
  assume "currentData (fst (dashboard_notify now n d)) \<noteq> currentData d"
  then show "shouldSwitchContent n"
    using dashboard_notify_no_switch [of n now d] by (cases "shouldSwitchContent n") simp_all
qed

theorem attention_alone_never_switches_witness:
  "currentData (dashboard_state (system_run
      [(1, FocusScoreUpdate (Some 15)), (2, FocusScoreUpdate (Some 18)),
       (3, FocusScoreUpdate (Some 12)), (4, FocusScoreUpdate (Some 20)),
       (5, FocusScoreUpdate (Some 10)), (9, DismissClicked)]
      (initial_system\<lparr>dashboard_state := initial_dashboard\<lparr>currentData :=
         Some \<lparr>focusScore = 89, type = ''text'', data = JObject 1, timestamp = None\<rparr>\<rparr>\<rparr>)))
   = Some \<lparr>focusScore = 89, type = ''text'', data = JObject 1, timestamp = None\<rparr>
   \<and> showContentSuggestionModal (tracker_state (system_run
      [(1, FocusScoreUpdate (Some 15)), (2, FocusScoreUpdate (Some 18)),
       (3, FocusScoreUpdate (Some 12)), (4, FocusScoreUpdate (Some 20)),
       (5, FocusScoreUpdate (Some 10))]
      (initial_system\<lparr>dashboard_state := initial_dashboard\<lparr>currentData :=
         Some \<lparr>focusScore = 89, type = ''text'', data = JObject 1, timestamp = None\<rparr>\<rparr>\<rparr>)))
   \<and> attentionData (dashboard_state (system_run
      [(1, FocusScoreUpdate (Some 15)), (2, FocusScoreUpdate (Some 18)),
       (3, FocusScoreUpdate (Some 12)), (4, FocusScoreUpdate (Some 20)),
       (5, FocusScoreUpdate (Some 10))]
      (initial_system\<lparr>dashboard_state := initial_dashboard\<lparr>currentData :=
         Some \<lparr>focusScore = 89, type = ''text'', data = JObject 1, timestamp = None\<rparr>\<rparr>\<rparr>)))
     = \<lparr>attentionLevel = 15, shouldSwitchContent = False\<rparr>
   \<and> notifications (snd (tracker_step 1 (FocusScoreUpdate (Some 15)) initial_tracker))
     = [\<lparr>attentionLevel = 15, shouldSwitchContent = False\<rparr>]
   \<and> currentData (fst (dashboard_notify 7 \<lparr>attentionLevel = 15, shouldSwitchContent = True\<rparr>
        (initial_dashboard\<lparr>currentData :=
           Some \<lparr>focusScore = 89, type = ''text'', data = JObject 1, timestamp = None\<rparr>\<rparr>)))
     \<noteq> Some \<lparr>focusScore = 89, type = ''text'', data = JObject 1, timestamp = None\<rparr>"
proof -
  let ?c = "\<lparr>focusScore = 89, type = ''text'', data = JObject 1, timestamp = None\<rparr>"
  let ?s = "initial_system\<lparr>dashboard_state := initial_dashboard\<lparr>currentData := Some ?c\<rparr>\<rparr>"
  let ?evs = "[(1, FocusScoreUpdate (Some 15)), (2, FocusScoreUpdate (Some 18)),
       (3, FocusScoreUpdate (Some 12)), (4, FocusScoreUpdate (Some 20)),
       (5, FocusScoreUpdate (Some 10))]"
  have dip: "showContentSuggestionModal (tracker_state (system_run ?evs ?s))
    \<and> attentionData (dashboard_state (system_run ?evs ?s))
        = \<lparr>attentionLevel = 15, shouldSwitchContent = False\<rparr>"
    by code_simp
  have one: "notifications (snd (tracker_step 1 (FocusScoreUpdate (Some 15)) initial_tracker))
     = [\<lparr>attentionLevel = 15, shouldSwitchContent = False\<rparr>]"
    by code_simp
  have confirmed: "currentData (fst (dashboard_notify 7
        \<lparr>attentionLevel = 15, shouldSwitchContent = True\<rparr>
        (initial_dashboard\<lparr>currentData := Some ?c\<rparr>))) \<noteq> Some ?c"
    by code_simp
  have "currentData (dashboard_state (system_run (?evs @ [(9, DismissClicked)]) ?s))
      = currentData (dashboard_state ?s)"
    using attention_alone_never_switches [of "?evs @ [(9, DismissClicked)]" ?s] by simp
  with dip one confirmed show ?thesis by simp
qed

end
